theory Spec2Isabelle
  imports Main
begin

section \<open>Data model\<close>

text \<open>
  A todo item is the object \<^verbatim>\<open>{ name: ..., done: true/false }\<close>. The field \<^verbatim>\<open>done\<close> is
  written \<open>done_flag\<close> here. It is a boolean throughout the program: the seed payload
  holds \<^verbatim>\<open>true\<close> and \<^verbatim>\<open>false\<close>, \<^verbatim>\<open>createItem\<close> stores \<^verbatim>\<open>false\<close>, \<^verbatim>\<open>toggleItem\<close> stores
  the result of \<^verbatim>\<open>!\<close>, and \<^verbatim>\<open>toggleAllItems\<close> stores \<^verbatim>\<open>true\<close>.
\<close>

record todo_item =
  name :: string
  done_flag :: bool

text \<open>
  The object \<^verbatim>\<open>model\<close> has one data field, the array \<^verbatim>\<open>items\<close>. Every item object is
  referenced from one array slot only (each comes from \<^verbatim>\<open>JSON.parse\<close> or from a fresh
  object literal in \<^verbatim>\<open>createItem\<close>), so the array of objects is a list of values.
\<close>

record model_state =
  items :: "todo_item list"

text \<open>The value of \<^verbatim>\<open>JSON.parse(stringifiedTodoItems)\<close>, the seed of \<^verbatim>\<open>model.items\<close>.\<close>

definition initial_model :: model_state where
  "initial_model =
     \<lparr>items = [\<lparr>name = ''This item is done'', done_flag = True\<rparr>,
               \<lparr>name = ''This item is not done'', done_flag = False\<rparr>]\<rparr>"

text \<open>
  The only fault the modelled code can raise: reading or writing a property of
  \<^verbatim>\<open>undefined\<close> throws a \<^verbatim>\<open>TypeError\<close>, which no handler of the program catches.
\<close>

datatype error = TypeError

section \<open>Array primitives\<close>

text \<open>
  \<^verbatim>\<open>xs[index]\<close> for an integer Number \<open>index\<close>: the element when the index is within
  \<open>0 .. length - 1\<close>, and \<^verbatim>\<open>undefined\<close> (\<open>None\<close>) otherwise. A negative number is not an
  array index, so it names no element.
\<close>

definition array_get :: "'a list \<Rightarrow> int \<Rightarrow> 'a option" where
  "array_get xs index =
     (if 0 \<le> index \<and> index < int (length xs) then Some (xs ! nat index) else None)"

text \<open>
  \<^verbatim>\<open>xs.splice(start, deleteCount)\<close> with no items to insert, on integer arguments, as
  ECMAScript defines it: a negative \<open>start\<close> counts from the end and is clamped at 0, a
  \<open>start\<close> beyond the end is clamped at the length, and the delete count is clamped
  to what remains. The result is the pair of the removed elements (the return value of
  \<^verbatim>\<open>splice\<close>) and the array's contents after the call.
\<close>

definition splice :: "'a list \<Rightarrow> int \<Rightarrow> int \<Rightarrow> 'a list \<times> 'a list" where
  "splice xs start deleteCount =
     (let len = int (length xs);
          actualStart = (if start < 0 then max (len + start) 0 else min start len);
          actualDeleteCount = min (max deleteCount 0) (len - actualStart)
      in (take (nat actualDeleteCount) (drop (nat actualStart) xs),
          take (nat actualStart) xs @ drop (nat (actualStart + actualDeleteCount)) xs))"

section \<open>Model\<close>

record counts =
  numItems :: nat
  numDoneItems :: nat

text \<open>
  \<^verbatim>\<open>countItems\<close>: the callback of \<^verbatim>\<open>forEach\<close> only increments the local counter, so the
  loop is a fold over the items with the counter as accumulator. The model is returned
  as the function leaves it.
\<close>

definition countItems :: "model_state \<Rightarrow> counts \<times> model_state" where
  "countItems m =
     (let n = length (items m);
          d = fold (\<lambda>item d. if done_flag item = True then d + 1 else d) (items m) 0
      in (\<lparr>numItems = n, numDoneItems = d\<rparr>, m))"

definition createItem :: "string \<Rightarrow> model_state \<Rightarrow> model_state" where
  "createItem nm m =
     (let newItem = \<lparr>name = nm, done_flag = False\<rparr>
      in m\<lparr>items := items m @ [newItem]\<rparr>)"

text \<open>
  \<^verbatim>\<open>this.items[index].name = name\<close>: when \<^verbatim>\<open>this.items[index]\<close> is \<^verbatim>\<open>undefined\<close> the
  property write throws.
\<close>

definition changeItemName :: "int \<Rightarrow> string \<Rightarrow> model_state \<Rightarrow> error + model_state" where
  "changeItemName index nm m =
     (case array_get (items m) index of
        None \<Rightarrow> Inl TypeError
      | Some item \<Rightarrow> Inr (m\<lparr>items := (items m)[nat index := item\<lparr>name := nm\<rparr>]\<rparr>))"

text \<open>\<^verbatim>\<open>this.items.splice(index, 1)\<close>; the removed elements are discarded.\<close>

definition deleteItem :: "int \<Rightarrow> model_state \<Rightarrow> error + model_state" where
  "deleteItem index m = Inr (m\<lparr>items := snd (splice (items m) index 1)\<rparr>)"

definition deleteAllItems :: "model_state \<Rightarrow> model_state" where
  "deleteAllItems m = m\<lparr>items := snd (splice (items m) 0 (int (length (items m))))\<rparr>"

text \<open>
  \<^verbatim>\<open>this.items[index].done = !this.items[index].done\<close>: both sides read
  \<^verbatim>\<open>this.items[index]\<close>, and the statement throws when it is \<^verbatim>\<open>undefined\<close>.
\<close>

definition toggleItem :: "int \<Rightarrow> model_state \<Rightarrow> error + model_state" where
  "toggleItem index m =
     (case array_get (items m) index of
        None \<Rightarrow> Inl TypeError
      | Some item \<Rightarrow>
          Inr (m\<lparr>items := (items m)[nat index := item\<lparr>done_flag := \<not> done_flag item\<rparr>]\<rparr>))"

text \<open>
  The first loop of \<^verbatim>\<open>toggleAllItems\<close>,
  \<^verbatim>\<open>model.items.forEach((item, index) => {this.toggleItem(index)})\<close>.
  \<^verbatim>\<open>forEach\<close> reads the length once (\<open>len\<close>), visits the indices \<open>k = 0 .. len - 1\<close>
  in order, and skips an index that is no longer present; a fault in the callback ends
  the loop.
\<close>

function forEach_toggleItem :: "nat \<Rightarrow> nat \<Rightarrow> model_state \<Rightarrow> error + model_state" where
  "forEach_toggleItem k len m =
     (if k < len then
        (if k < length (items m) then
           (case toggleItem (int k) m of
              Inl e \<Rightarrow> Inl e
            | Inr m' \<Rightarrow> forEach_toggleItem (Suc k) len m')
         else forEach_toggleItem (Suc k) len m)
      else Inr m)"
  by pat_completeness auto
termination
  by (relation "measure (\<lambda>(k, len, m). len - k)") auto

declare forEach_toggleItem.simps [simp del]

text \<open>
  \<^verbatim>\<open>toggleAllItems\<close>. The second loop's callback touches only the item it is given:
  \<^verbatim>\<open>if (!item.done) { item.done = true; }\<close>.
\<close>

definition toggleAllItems :: "model_state \<Rightarrow> error + model_state" where
  "toggleAllItems m =
     (case countItems m of
        (c, m1) \<Rightarrow>
          if numItems c = numDoneItems c \<or> numDoneItems c = 0 then
            forEach_toggleItem 0 (length (items m1)) m1
          else
            Inr (m1\<lparr>items :=
                   map (\<lambda>item. if \<not> done_flag item then item\<lparr>done_flag := True\<rparr> else item)
                     (items m1)\<rparr>))"

section \<open>View\<close>

text \<open>
  The value of the template literal \<^verbatim>\<open>`${i}`\<close> for a loop counter \<open>i\<close>: its decimal
  numeral.
\<close>

definition digit_char :: "nat \<Rightarrow> char" where
  "digit_char d = ''0123456789'' ! d"

function show_nat :: "nat \<Rightarrow> string" where
  "show_nat n = (if n < 10 then [digit_char n] else show_nat (n div 10) @ [digit_char (n mod 10)])"
  by pat_completeness auto
termination
  by (relation "measure id") auto

declare show_nat.simps [simp del]

text \<open>
  A \<^verbatim>\<open>classList\<close> is the list of an element's class tokens. \<^verbatim>\<open>add\<close> appends a token that
  is not there yet, \<^verbatim>\<open>remove\<close> takes the token out.
\<close>

definition classList_add :: "string \<Rightarrow> string list \<Rightarrow> string list" where
  "classList_add c cl = (if c \<in> set cl then cl else cl @ [c])"

definition classList_remove :: "string \<Rightarrow> string list \<Rightarrow> string list" where
  "classList_remove c cl = filter (\<lambda>x. x \<noteq> c) cl"

text \<open>\<^verbatim>\<open>displayDOMElement\<close> and \<^verbatim>\<open>hideDOMElement\<close>, on the class list of the element.\<close>

definition displayDOMElement :: "string list \<Rightarrow> string list" where
  "displayDOMElement domElement = classList_remove ''hide'' domElement"

definition hideDOMElement :: "string list \<Rightarrow> string list" where
  "hideDOMElement domElement = classList_add ''hide'' domElement"

text \<open>
  One \<^verbatim>\<open>li\<close> as the loop of \<^verbatim>\<open>displayTodoItems\<close> builds it, with the four children in the
  order they are appended (check box, label, input box, delete button). Of each child
  the record keeps what the loop sets: the check box's \<^verbatim>\<open>checked\<close>, the label's
  \<^verbatim>\<open>innerHTML\<close> (the string assigned to it) and class list, the input box's value and
  class list, and the index \<open>i\<close> that the delete button's click listener captures.
\<close>

record li_element =
  li_id :: string
  checkBox_checked :: bool
  itemLabel_innerHTML :: string
  itemLabel_classList :: "string list"
  inputBox_value :: string
  inputBox_classList :: "string list"
  deleteButton_index :: nat

text \<open>
  The page: the model, the class list of the element \<^verbatim>\<open>toggle-all-items-button\<close>, and
  the children of the \<^verbatim>\<open>ul\<close>, first child first.
\<close>

record page =
  model :: model_state
  toggleAllButton :: "string list"
  todoListUL :: "li_element list"

text \<open>The body of the loop up to the four \<^verbatim>\<open>appendChild\<close> calls, for counter \<open>i\<close>.\<close>

definition createListElement :: "nat \<Rightarrow> todo_item \<Rightarrow> li_element" where
  "createListElement i item =
     \<lparr>li_id = show_nat i,
      checkBox_checked = (if done_flag item then True else False),
      itemLabel_innerHTML = name item,
      itemLabel_classList =
        (if done_flag item then classList_add ''item-strikethrough'' [''item-label'']
         else classList_remove ''item-strikethrough'' [''item-label'']),
      inputBox_value = name item,
      inputBox_classList = [''update-item-input'', ''hide''],
      deleteButton_index = i\<rparr>"

text \<open>
  \<^verbatim>\<open>childNodes[0]\<close> is the first child, or \<^verbatim>\<open>undefined\<close> when there is none; a child is
  named by its position. \<^verbatim>\<open>insertBefore(node, ref)\<close> appends \<open>node\<close> when \<open>ref\<close> is
  \<^verbatim>\<open>undefined\<close> (converted to \<^verbatim>\<open>null\<close>), and puts it right before the child \<open>ref\<close>
  otherwise.
\<close>

definition childNodes_0 :: "'a list \<Rightarrow> nat option" where
  "childNodes_0 cs = (if cs = [] then None else Some 0)"

definition insertBefore :: "'a \<Rightarrow> nat option \<Rightarrow> 'a list \<Rightarrow> 'a list" where
  "insertBefore node ref cs =
     (case ref of None \<Rightarrow> cs @ [node] | Some k \<Rightarrow> take k cs @ node # drop k cs)"

text \<open>The \<^verbatim>\<open>for\<close> loop of \<^verbatim>\<open>displayTodoItems\<close>, from counter \<open>i\<close> on.\<close>

function displayTodoItems_loop :: "nat \<Rightarrow> page \<Rightarrow> page" where
  "displayTodoItems_loop i s =
     (if i < length (items (model s)) then
        (let listElement = createListElement i (items (model s) ! i)
         in displayTodoItems_loop (Suc i)
              (s\<lparr>todoListUL :=
                   insertBefore listElement (childNodes_0 (todoListUL s)) (todoListUL s)\<rparr>))
      else s)"
  by pat_completeness auto
termination
  by (relation "measure (\<lambda>(i, s). length (items (model s)) - i)") auto

declare displayTodoItems_loop.simps [simp del]

definition displayTodoItems :: "page \<Rightarrow> page" where
  "displayTodoItems s =
     (let s1 = (if length (items (model s)) > 0
                then s\<lparr>toggleAllButton := displayDOMElement (toggleAllButton s)\<rparr>
                else if length (items (model s)) = 0
                then s\<lparr>toggleAllButton := hideDOMElement (toggleAllButton s)\<rparr>
                else s);
          s2 = s1\<lparr>todoListUL := []\<rparr>
      in displayTodoItems_loop 0 s2)"

section \<open>Controller\<close>

text \<open>
  The values that \<^verbatim>\<open>event.code\<close> is compared with: \<^verbatim>\<open>undefined\<close>, integer Numbers and
  Strings. \<^verbatim>\<open>===\<close> is false on operands of different types and compares two Numbers or
  two Strings by value.
\<close>

datatype js_value = JSUndefined | JSNumber int | JSString string

fun strict_equals :: "js_value \<Rightarrow> js_value \<Rightarrow> bool" where
  "strict_equals JSUndefined JSUndefined = True"
| "strict_equals (JSNumber a) (JSNumber b) = (a = b)"
| "strict_equals (JSString a) (JSString b) = (a = b)"
| "strict_equals _ _ = False"

definition ENTER_KEY :: js_value where
  "ENTER_KEY = JSNumber 13"

definition ESC_KEY :: js_value where
  "ESC_KEY = JSNumber 27"

text \<open>
  The target of a key event on an edit input: the input's current value (what the user
  typed) and the \<^verbatim>\<open>id\<close> of its parent \<^verbatim>\<open>li\<close>. The event carries \<^verbatim>\<open>code\<close> and the target.
  The \<^verbatim>\<open>code\<close> of a \<^verbatim>\<open>KeyboardEvent\<close> is a String naming the physical key, such as
  \<^verbatim>\<open>"Enter"\<close> or \<^verbatim>\<open>"Escape"\<close>.
\<close>

record input_element =
  input_value :: string
  parentElement_id :: string

record key_event =
  code :: js_value
  target :: input_element

text \<open>
  \<^verbatim>\<open>model.items[id]\<close> for a String \<open>id\<close>: the position of the element whose index, written
  as a decimal numeral, is \<open>id\<close>; \<open>None\<close> when \<open>id\<close> names no element. (The view writes
  only such numerals as ids; the names of the array's other properties, such as
  \<^verbatim>\<open>length\<close>, are never used as ids.)
\<close>

definition index_of_id :: "'a list \<Rightarrow> string \<Rightarrow> nat option" where
  "index_of_id xs ident = find (\<lambda>i. show_nat i = ident) [0..<length xs]"

text \<open>
  \<^verbatim>\<open>controller.changeItemName(index, name)\<close> as the key handlers call it, with the
  String \<open>id\<close> as index: \<^verbatim>\<open>model.changeItemName\<close>, then a full refresh. When \<open>id\<close> names
  no element, \<^verbatim>\<open>this.items[id]\<close> is \<^verbatim>\<open>undefined\<close> and the write throws.
\<close>

definition controller_changeItemName :: "string \<Rightarrow> string \<Rightarrow> page \<Rightarrow> error + page" where
  "controller_changeItemName ident nm s =
     (case index_of_id (items (model s)) ident of
        None \<Rightarrow> Inl TypeError
      | Some i \<Rightarrow>
          (case changeItemName (int i) nm (model s) of
             Inl e \<Rightarrow> Inl e
           | Inr m' \<Rightarrow> Inr (displayTodoItems (s\<lparr>model := m'\<rparr>))))"

text \<open>
  \<^verbatim>\<open>updateItemNameOnKeyUp(event)\<close>. The result is the page and the target input as the
  handler leaves them. \<^verbatim>\<open>newName != ""\<close> compares two Strings.
\<close>

definition updateItemNameOnKeyUp :: "key_event \<Rightarrow> page \<Rightarrow> error + (page \<times> input_element)" where
  "updateItemNameOnKeyUp event s =
     (let selectedItemInput = target event;
          ident = parentElement_id selectedItemInput;
          newName = input_value selectedItemInput
      in if strict_equals (code event) ENTER_KEY \<and> newName \<noteq> [] then
           (case controller_changeItemName ident newName s of
              Inl e \<Rightarrow> Inl e
            | Inr s' \<Rightarrow> Inr (s', selectedItemInput))
         else if strict_equals (code event) ESC_KEY then
           (case index_of_id (items (model s)) ident of
              None \<Rightarrow> Inl TypeError
            | Some i \<Rightarrow>
                Inr (displayTodoItems s,
                     selectedItemInput\<lparr>input_value := name (items (model s) ! i)\<rparr>))
         else Inr (s, selectedItemInput))"

section \<open>Properties of the model\<close>

lemma fold_count_done:
  "fold (\<lambda>item d. if done_flag item then d + 1 else d) xs acc
     = acc + length (filter done_flag xs)"
  by (induction xs arbitrary: acc) auto

text \<open>
  Claim C8. For every list, the empty one included, \<^verbatim>\<open>countItems()\<close> returns
  \<open>numItems\<close> equal to the length of the list and \<open>numDoneItems\<close> equal to the number
  of items whose done flag is true, and it leaves the model as it was; on the empty list
  the result is \<open>{0, 0}\<close>.
\<close>

theorem countItems_correct:
  "countItems m =
     (\<lparr>numItems = length (items m), numDoneItems = length (filter done_flag (items m))\<rparr>, m)
   \<and> fst (countItems (m\<lparr>items := []\<rparr>)) = \<lparr>numItems = 0, numDoneItems = 0\<rparr>"
  by (simp add: countItems_def fold_count_done)

text \<open>
  Claim C6. For every list and every name, the empty string included,
  \<^verbatim>\<open>createItem(name)\<close> makes the list one longer and appends \<open>{name, done: false}\<close> at
  the end, leaving the existing elements unchanged; the model does not constrain the
  name.
\<close>

theorem createItem_appends:
  "items (createItem nm m) = items m @ [\<lparr>name = nm, done_flag = False\<rparr>]
   \<and> length (items (createItem nm m)) = length (items m) + 1
   \<and> take (length (items m)) (items (createItem nm m)) = items m
   \<and> last (items (createItem nm m)) = \<lparr>name = nm, done_flag = False\<rparr>
   \<and> items (createItem [] m) = items m @ [\<lparr>name = [], done_flag = False\<rparr>]"
  by (simp add: createItem_def)

subsection \<open>Deleting by index\<close>

lemma splice_one_in_bounds:
  "0 \<le> i \<Longrightarrow> i < int (length xs) \<Longrightarrow>
     snd (splice xs i 1) = take (nat i) xs @ drop (Suc (nat i)) xs"
  by (simp add: splice_def Let_def nat_add_distrib min_def max_def)

lemma splice_one_beyond:
  "int (length xs) \<le> i \<Longrightarrow> snd (splice xs i 1) = xs"
  by (simp add: splice_def Let_def min_def max_def)

lemma splice_one_negative:
  "i < 0 \<Longrightarrow>
     snd (splice xs i 1)
       = take (nat (int (length xs) + i)) xs @ drop (Suc (nat (int (length xs) + i))) xs"
  by (auto simp add: splice_def Let_def min_def max_def nat_add_distrib)

lemma splice_one_last:
  "xs \<noteq> [] \<Longrightarrow> snd (splice xs (- 1) 1) = butlast xs"
proof -
  assume "xs \<noteq> []"
  then have k: "nat (int (length xs) + - 1) = length xs - 1"
    and s: "Suc (length xs - 1) = length xs"
    by (cases xs; simp)+
  show ?thesis
    using splice_one_negative [of "- 1" xs] by (simp only: k s) (simp add: butlast_conv_take)
qed

text \<open>
  Claim C5. For every list and every in-bounds index \<open>i\<close>, \<^verbatim>\<open>deleteItem(i)\<close> makes the
  list exactly one shorter, removes the element that was at position \<open>i\<close>, leaves the
  elements before position \<open>i\<close> where they were, and moves every element after position
  \<open>i\<close> down by one position.
\<close>

theorem deleteItem_in_bounds:
  assumes "0 \<le> i" and "i < int (length (items m))"
  shows "\<exists>m'. deleteItem i m = Inr m'
           \<and> Suc (length (items m')) = length (items m)
           \<and> items m' = take (nat i) (items m) @ drop (Suc (nat i)) (items m)
           \<and> (\<forall>k. k < nat i \<longrightarrow> items m' ! k = items m ! k)
           \<and> (\<forall>k. nat i \<le> k \<and> k < length (items m') \<longrightarrow> items m' ! k = items m ! Suc k)"
proof -
  let ?xs = "items m"
  let ?ys = "take (nat i) ?xs @ drop (Suc (nat i)) ?xs"
  have n: "nat i < length ?xs" using assms by simp
  have del: "deleteItem i m = Inr (m\<lparr>items := ?ys\<rparr>)"
    using assms by (simp add: deleteItem_def splice_one_in_bounds)
  have len: "Suc (length ?ys) = length ?xs" using n by simp
  have before: "\<forall>k. k < nat i \<longrightarrow> ?ys ! k = ?xs ! k"
    using n by (simp add: nth_append)
  have after: "\<forall>k. nat i \<le> k \<and> k < length ?ys \<longrightarrow> ?ys ! k = ?xs ! Suc k"
    using n by (auto simp add: nth_append min_def)
  show ?thesis using del len before after by simp
qed

theorem deleteItem_in_bounds_witness:
  "(0::int) \<le> 0 \<and> (0::int) < int (length (items initial_model))
   \<and> deleteItem 0 initial_model
       = Inr \<lparr>items = [\<lparr>name = ''This item is not done'', done_flag = False\<rparr>]\<rparr>"
  using deleteItem_in_bounds [of 0 initial_model]
  by (auto simp add: initial_model_def)

text \<open>
  Claim C9. For every non-empty list, \<^verbatim>\<open>deleteItem(-1)\<close> removes the last element (the
  negative start of \<^verbatim>\<open>splice\<close> counts from the end), and for every index greater than or
  equal to the length, \<^verbatim>\<open>deleteItem(index)\<close> returns normally and leaves the list as it
  was.
\<close>

theorem deleteItem_outside:
  "(items m \<noteq> [] \<longrightarrow> deleteItem (- 1) m = Inr (m\<lparr>items := butlast (items m)\<rparr>))
   \<and> (int (length (items m)) \<le> i \<longrightarrow> deleteItem i m = Inr m)"
  by (simp add: deleteItem_def splice_one_beyond splice_one_last)

theorem deleteItem_outside_witness:
  "deleteItem (- 1) initial_model
     = Inr \<lparr>items = [\<lparr>name = ''This item is done'', done_flag = True\<rparr>]\<rparr>
   \<and> deleteItem 2 initial_model = Inr initial_model
   \<and> deleteItem 7 initial_model = Inr initial_model"
  using deleteItem_outside [of initial_model 2] deleteItem_outside [of initial_model 7]
  by (simp add: initial_model_def)

subsection \<open>Toggling one item\<close>

text \<open>
  Claim C7. For every list and every in-bounds index \<open>i\<close>, \<^verbatim>\<open>toggleItem(i)\<close> flips the
  done flag of the item at position \<open>i\<close> and changes nothing else (its name, the length
  and every other item stay), and a second \<^verbatim>\<open>toggleItem(i)\<close> gives back the original
  model.
\<close>

theorem toggleItem_flips:
  assumes "0 \<le> i" and "i < int (length (items m))"
  shows "\<exists>m'. toggleItem i m = Inr m'
           \<and> items m'
               = (items m)[nat i := (items m ! nat i)\<lparr>done_flag := \<not> done_flag (items m ! nat i)\<rparr>]
           \<and> length (items m') = length (items m)
           \<and> done_flag (items m' ! nat i) = (\<not> done_flag (items m ! nat i))
           \<and> name (items m' ! nat i) = name (items m ! nat i)
           \<and> (\<forall>k. k \<noteq> nat i \<longrightarrow> items m' ! k = items m ! k)
           \<and> toggleItem i m' = Inr m"
  using assms by (simp add: toggleItem_def array_get_def list_update_same_conv)

theorem toggleItem_flips_witness:
  "(0::int) \<le> 1 \<and> (1::int) < int (length (items initial_model))
   \<and> toggleItem 1 initial_model =
       Inr \<lparr>items = [\<lparr>name = ''This item is done'', done_flag = True\<rparr>,
                       \<lparr>name = ''This item is not done'', done_flag = True\<rparr>]\<rparr>
   \<and> toggleItem 1 \<lparr>items = [\<lparr>name = ''This item is done'', done_flag = True\<rparr>,
                              \<lparr>name = ''This item is not done'', done_flag = True\<rparr>]\<rparr>
       = Inr initial_model"
  using toggleItem_flips [of 1 initial_model]
  by (simp add: initial_model_def toggleItem_def array_get_def)

subsection \<open>Indices outside the list\<close>

text \<open>
  Claim C4, as the code has it. For every integer index outside the bounds of the list,
  \<^verbatim>\<open>changeItemName\<close> and \<^verbatim>\<open>toggleItem\<close> fail with a \<^verbatim>\<open>TypeError\<close> that nothing handles
  (they access a property of the \<^verbatim>\<open>undefined\<close> found at the position). \<^verbatim>\<open>deleteItem\<close>
  does not fail: it returns normally, leaving the list unchanged when the index is at
  least the length, and removing the element at position \<open>max (length + index) 0\<close>, if
  there is one, when the index is negative.
\<close>

theorem out_of_bounds_index:
  assumes "index < 0 \<or> int (length (items m)) \<le> index"
  shows "changeItemName index nm m = Inl TypeError
       \<and> toggleItem index m = Inl TypeError
       \<and> deleteItem index m =
           Inr (m\<lparr>items :=
                  (if index < 0
                   then take (nat (int (length (items m)) + index)) (items m)
                        @ drop (Suc (nat (int (length (items m)) + index))) (items m)
                   else items m)\<rparr>)"
  using assms
  by (auto simp add: changeItemName_def toggleItem_def array_get_def deleteItem_def
      splice_one_beyond splice_one_negative)

theorem out_of_bounds_index_witness:
  "changeItemName (- 1) ''x'' initial_model = Inl TypeError
   \<and> toggleItem (- 1) initial_model = Inl TypeError
   \<and> deleteItem (- 1) initial_model
       = Inr \<lparr>items = [\<lparr>name = ''This item is done'', done_flag = True\<rparr>]\<rparr>
   \<and> changeItemName 2 ''x'' initial_model = Inl TypeError
   \<and> toggleItem 2 initial_model = Inl TypeError
   \<and> deleteItem 2 initial_model = Inr initial_model"
  using out_of_bounds_index [of "- 1" initial_model "''x''"]
    out_of_bounds_index [of 2 initial_model "''x''"]
  by (simp add: initial_model_def)

text \<open>
  Claim C4 as stated, that \<^verbatim>\<open>deleteItem\<close> too fails on every index outside the bounds,
  does not hold: on the two seed items, index 5 is out of bounds and \<^verbatim>\<open>deleteItem(5)\<close>
  returns normally with the list unchanged.
\<close>

theorem deleteItem_out_of_bounds_counterexample:
  "\<not> (0 \<le> (5::int) \<and> (5::int) < int (length (items initial_model)))
   \<and> deleteItem 5 initial_model \<noteq> Inl TypeError
   \<and> deleteItem 5 initial_model = Inr initial_model"
  by (simp add: initial_model_def deleteItem_def splice_def)

subsection \<open>Toggling all items\<close>

lemma toggleItem_nat:
  "k < length (items m) \<Longrightarrow>
     toggleItem (int k) m
       = Inr (m\<lparr>items := (items m)[k := (items m ! k)\<lparr>done_flag := \<not> done_flag (items m ! k)\<rparr>]\<rparr>)"
  by (simp add: toggleItem_def array_get_def)

text \<open>
  The loop invariant of the first branch: when the loop stands at index \<open>k\<close>, the items
  from \<open>k\<close> on are still to be flipped and the ones before \<open>k\<close> are final. The callback
  never faults, since every index it is given is in range.
\<close>

lemma forEach_toggleItem_eq:
  "length (items m) = len \<Longrightarrow> k \<le> len \<Longrightarrow>
     forEach_toggleItem k len m
       = Inr (m\<lparr>items := take k (items m)
                 @ map (\<lambda>it. it\<lparr>done_flag := \<not> done_flag it\<rparr>) (drop k (items m))\<rparr>)"
proof (induction k len m rule: forEach_toggleItem.induct)
  case (1 k len m)
  show ?case
  proof (cases "k < len")
    case False
    with "1.prems" have "k = length (items m)" by simp
    then show ?thesis using "1.prems" by (subst forEach_toggleItem.simps) simp
  next
    case True
    let ?xs = "items m"
    let ?f = "\<lambda>it::todo_item. it\<lparr>done_flag := \<not> done_flag it\<rparr>"
    let ?m' = "m\<lparr>items := ?xs[k := ?f (?xs ! k)]\<rparr>"
    have kl: "k < length ?xs" using True "1.prems" by simp
    have step: "toggleItem (int k) m = Inr ?m'" using kl by (rule toggleItem_nat)
    have ih: "forEach_toggleItem (Suc k) len ?m'
        = Inr (?m'\<lparr>items := take (Suc k) (items ?m') @ map ?f (drop (Suc k) (items ?m'))\<rparr>)"
      using "1.IH"(1) [OF True kl step] "1.prems" True by simp
    have "take (Suc k) (items ?m') @ map ?f (drop (Suc k) (items ?m'))
        = take k ?xs @ map ?f (drop k ?xs)"
      using kl by (simp add: take_Suc_conv_app_nth Cons_nth_drop_Suc [symmetric])
    then have "forEach_toggleItem (Suc k) len ?m'
        = Inr (m\<lparr>items := take k ?xs @ map ?f (drop k ?xs)\<rparr>)"
      using ih by simp
    moreover have "forEach_toggleItem k len m = forEach_toggleItem (Suc k) len ?m'"
      using True kl step by (subst forEach_toggleItem.simps) simp
    ultimately show ?thesis by simp
  qed
qed

lemma forEach_toggleItem_all:
  "forEach_toggleItem 0 (length (items m)) m
     = Inr (m\<lparr>items := map (\<lambda>it. it\<lparr>done_flag := \<not> done_flag it\<rparr>) (items m)\<rparr>)"
  using forEach_toggleItem_eq [of m "length (items m)" 0] by simp

lemma force_done_map:
  "map (\<lambda>item. if \<not> done_flag item then item\<lparr>done_flag := True\<rparr> else item) xs
     = map (\<lambda>it. it\<lparr>done_flag := True\<rparr>) xs"
  by (induction xs) auto

text \<open>What \<^verbatim>\<open>toggleAllItems\<close> computes, with the branch condition as the code tests it.\<close>

lemma toggleAllItems_eq:
  "toggleAllItems m =
     Inr (m\<lparr>items :=
        (if length (filter done_flag (items m)) = length (items m)
            \<or> filter done_flag (items m) = []
         then map (\<lambda>it. it\<lparr>done_flag := \<not> done_flag it\<rparr>) (items m)
         else map (\<lambda>it. it\<lparr>done_flag := True\<rparr>) (items m))\<rparr>)"
  by (simp add: toggleAllItems_def countItems_def fold_count_done forEach_toggleItem_all
      force_done_map eq_commute [of "length (items m)"])

lemma all_done_iff:
  "(length (filter done_flag xs) = length xs) = (\<forall>a\<in>set xs. done_flag a)"
  using sum_length_filter_compl [of done_flag xs] by (auto simp add: filter_empty_conv)

lemma policy_condition:
  "(length (filter done_flag xs) = length xs \<or> filter done_flag xs = [])
     = ((\<forall>a\<in>set xs. \<forall>b\<in>set xs. done_flag a = done_flag b) \<or> (\<forall>a\<in>set xs. \<not> done_flag a))"
  unfolding all_done_iff filter_empty_conv by blast

text \<open>
  Claim C1. For every list, \<^verbatim>\<open>toggleAllItems\<close> follows the branch policy: if every item
  has the same done flag, or no item is done, it flips the done flag of each item;
  otherwise (a mixed list with at least one done item) it sets every done flag to true.
  In particular \<open>[done, done]\<close> becomes \<open>[undone, undone]\<close>, \<open>[done, undone]\<close> becomes
  \<open>[done, done]\<close>, and \<open>[undone, undone]\<close> becomes \<open>[done, done]\<close>.
\<close>

theorem toggleAllItems_policy:
  "toggleAllItems m =
     Inr (m\<lparr>items :=
        (if (\<forall>a\<in>set (items m). \<forall>b\<in>set (items m). done_flag a = done_flag b)
            \<or> (\<forall>a\<in>set (items m). \<not> done_flag a)
         then map (\<lambda>it. it\<lparr>done_flag := \<not> done_flag it\<rparr>) (items m)
         else map (\<lambda>it. it\<lparr>done_flag := True\<rparr>) (items m))\<rparr>)
   \<and> toggleAllItems \<lparr>items = [\<lparr>name = a, done_flag = True\<rparr>, \<lparr>name = b, done_flag = True\<rparr>]\<rparr>
       = Inr \<lparr>items = [\<lparr>name = a, done_flag = False\<rparr>, \<lparr>name = b, done_flag = False\<rparr>]\<rparr>
   \<and> toggleAllItems \<lparr>items = [\<lparr>name = a, done_flag = True\<rparr>, \<lparr>name = b, done_flag = False\<rparr>]\<rparr>
       = Inr \<lparr>items = [\<lparr>name = a, done_flag = True\<rparr>, \<lparr>name = b, done_flag = True\<rparr>]\<rparr>
   \<and> toggleAllItems \<lparr>items = [\<lparr>name = a, done_flag = False\<rparr>, \<lparr>name = b, done_flag = False\<rparr>]\<rparr>
       = Inr \<lparr>items = [\<lparr>name = a, done_flag = True\<rparr>, \<lparr>name = b, done_flag = True\<rparr>]\<rparr>"
proof -
  have general: "toggleAllItems m =
     Inr (m\<lparr>items :=
        (if (\<forall>a\<in>set (items m). \<forall>b\<in>set (items m). done_flag a = done_flag b)
            \<or> (\<forall>a\<in>set (items m). \<not> done_flag a)
         then map (\<lambda>it. it\<lparr>done_flag := \<not> done_flag it\<rparr>) (items m)
         else map (\<lambda>it. it\<lparr>done_flag := True\<rparr>) (items m))\<rparr>)"
    unfolding toggleAllItems_eq [of m] policy_condition [of "items m"] ..
  show ?thesis
    by (rule conjI [OF general]) (simp add: toggleAllItems_eq)
qed

theorem toggleAllItems_policy_witness:
  "toggleAllItems initial_model
     = Inr \<lparr>items = [\<lparr>name = ''This item is done'', done_flag = True\<rparr>,
                     \<lparr>name = ''This item is not done'', done_flag = True\<rparr>]\<rparr>"
  using toggleAllItems_policy [of initial_model]
  by (simp add: initial_model_def)

text \<open>
  Claim C10. For every list, \<^verbatim>\<open>toggleAllItems\<close> returns normally and keeps the length of
  the list and the name of the item at every position; only done flags change.
\<close>

theorem toggleAllItems_frame:
  "\<exists>m'. toggleAllItems m = Inr m'
      \<and> length (items m') = length (items m)
      \<and> map name (items m') = map name (items m)"
  by (simp add: toggleAllItems_eq comp_def)

section \<open>Properties of the view\<close>

lemma insertBefore_first: "insertBefore node (childNodes_0 cs) cs = node # cs"
  by (simp add: insertBefore_def childNodes_0_def)

text \<open>
  The loop invariant: run from counter \<open>i\<close>, the loop puts the elements for the indices
  \<open>i, i + 1, ...\<close> in front of the children that are there, the last one built first.
\<close>

lemma displayTodoItems_loop_eq:
  "i \<le> length (items (model s)) \<Longrightarrow>
     displayTodoItems_loop i s
       = s\<lparr>todoListUL :=
             rev (map (\<lambda>k. createListElement k (items (model s) ! k)) [i..<length (items (model s))])
             @ todoListUL s\<rparr>"
proof (induction i s rule: displayTodoItems_loop.induct)
  case (1 i s)
  show ?case
  proof (cases "i < length (items (model s))")
    case False
    then show ?thesis by (subst displayTodoItems_loop.simps) simp
  next
    case True
    let ?el = "createListElement i (items (model s) ! i)"
    let ?s' = "s\<lparr>todoListUL := ?el # todoListUL s\<rparr>"
    have "displayTodoItems_loop i s = displayTodoItems_loop (Suc i) ?s'"
      using True by (subst displayTodoItems_loop.simps) (simp add: insertBefore_first)
    also have "\<dots> = ?s'\<lparr>todoListUL :=
         rev (map (\<lambda>k. createListElement k (items (model ?s') ! k))
                [Suc i..<length (items (model ?s'))])
         @ todoListUL ?s'\<rparr>"
      using "1.IH" [OF True refl] True by (simp add: insertBefore_first)
    also have "\<dots> = s\<lparr>todoListUL :=
         rev (map (\<lambda>k. createListElement k (items (model s) ! k)) [i..<length (items (model s))])
         @ todoListUL s\<rparr>"
      using True by (simp add: upt_conv_Cons)
    finally show ?thesis .
  qed
qed

lemma displayTodoItems_model: "model (displayTodoItems s) = model s"
  by (simp add: displayTodoItems_def displayTodoItems_loop_eq Let_def)

lemma displayTodoItems_list:
  "todoListUL (displayTodoItems s)
     = rev (map (\<lambda>k. createListElement k (items (model s) ! k)) [0..<length (items (model s))])"
  by (simp add: displayTodoItems_def displayTodoItems_loop_eq Let_def)

lemma map_nth_upt: "map (\<lambda>k. f (xs ! k)) [0..<length xs] = map f xs"
  by (rule nth_equalityI) simp_all

lemma show_nat_digit: "n < 10 \<Longrightarrow> show_nat n = [digit_char n]"
  by (subst show_nat.simps) simp

text \<open>
  Claim C2, as the code has it. For every list, \<^verbatim>\<open>displayTodoItems\<close> builds one element
  per item, going through the model's items in array order and inserting each new
  element at the front of the container; the displayed sequence is therefore the model's
  array in reverse order (the last item of the array is displayed first), each element
  carrying the array index of its item as id. The model is not changed.
\<close>

theorem displayTodoItems_reversed:
  "todoListUL (displayTodoItems s)
     = rev (map (\<lambda>k. createListElement k (items (model s) ! k)) [0..<length (items (model s))])
   \<and> map itemLabel_innerHTML (todoListUL (displayTodoItems s)) = rev (map name (items (model s)))
   \<and> map inputBox_value (todoListUL (displayTodoItems s)) = rev (map name (items (model s)))
   \<and> map checkBox_checked (todoListUL (displayTodoItems s)) = rev (map done_flag (items (model s)))
   \<and> map li_id (todoListUL (displayTodoItems s)) = rev (map show_nat [0..<length (items (model s))])
   \<and> model (displayTodoItems s) = model s"
  by (simp add: displayTodoItems_list displayTodoItems_model rev_map [symmetric] comp_def
      createListElement_def map_nth_upt)

text \<open>
  Claim C2 as stated, that the displayed sequence is in the order of the model's array,
  does not hold: the two seed items are displayed second item first.
\<close>

theorem displayTodoItems_order_counterexample:
  "map itemLabel_innerHTML
     (todoListUL (displayTodoItems \<lparr>model = initial_model, toggleAllButton = [], todoListUL = []\<rparr>))
     = [''This item is not done'', ''This item is done'']
   \<and> map name (items initial_model) = [''This item is done'', ''This item is not done'']
   \<and> map itemLabel_innerHTML
     (todoListUL (displayTodoItems \<lparr>model = initial_model, toggleAllButton = [], todoListUL = []\<rparr>))
     \<noteq> map name (items initial_model)"
  by (simp add: displayTodoItems_list initial_model_def createListElement_def upt_rec [of 0]
      upt_rec [of 1])

section \<open>Properties of the controller\<close>

text \<open>
  A key event whose \<^verbatim>\<open>code\<close> is a String, as that of every \<^verbatim>\<open>KeyboardEvent\<close> is, passes
  neither test of \<^verbatim>\<open>updateItemNameOnKeyUp\<close>: \<^verbatim>\<open>===\<close> of a String and the Number 13 or 27
  is false. The handler then changes nothing.
\<close>

lemma string_code_ignored:
  "code event = JSString c \<Longrightarrow> updateItemNameOnKeyUp event s = Inr (s, target event)"
  by (simp add: updateItemNameOnKeyUp_def ENTER_KEY_def ESC_KEY_def Let_def)

lemma index_of_id_0: "xs \<noteq> [] \<Longrightarrow> index_of_id xs ''0'' = Some 0"
  by (cases xs) (simp_all add: index_of_id_def upt_rec [of 0] show_nat_digit digit_char_def)

text \<open>
  Were \<^verbatim>\<open>code\<close> the Number 13, the first branch would run and commit the rename, as its
  documentation describes.
\<close>

lemma numeric_code_renames:
  "model s = initial_model \<Longrightarrow>
   updateItemNameOnKeyUp
     \<lparr>code = JSNumber 13,
      target = \<lparr>input_value = ''Buy milk'', parentElement_id = ''0''\<rparr>\<rparr> s
   = Inr (displayTodoItems (s\<lparr>model :=
             \<lparr>items = [\<lparr>name = ''Buy milk'', done_flag = True\<rparr>,
                        \<lparr>name = ''This item is not done'', done_flag = False\<rparr>]\<rparr>\<rparr>),
          \<lparr>input_value = ''Buy milk'', parentElement_id = ''0''\<rparr>)"
  by (simp add: updateItemNameOnKeyUp_def ENTER_KEY_def Let_def controller_changeItemName_def
      index_of_id_0 initial_model_def changeItemName_def array_get_def)

text \<open>
  Claim C3 says that ENTER with non-empty content commits the rename and that ESC
  reverts the input and refreshes. On the rendered seed list, with \<open>Buy milk\<close> typed
  into the edit input of the item with id 0, the code does neither: the key event of
  the ENTER key (\<^verbatim>\<open>code\<close> \<open>Enter\<close>) leaves the model's first name as it was, and the key
  event of the ESC key (\<^verbatim>\<open>code\<close> \<open>Escape\<close>) leaves the typed text in the input.
\<close>

theorem updateItemNameOnKeyUp_keys_ignored:
  "updateItemNameOnKeyUp
     \<lparr>code = JSString ''Enter'',
      target = \<lparr>input_value = ''Buy milk'', parentElement_id = ''0''\<rparr>\<rparr>
     (displayTodoItems \<lparr>model = initial_model, toggleAllButton = [], todoListUL = []\<rparr>)
   = Inr (displayTodoItems \<lparr>model = initial_model, toggleAllButton = [], todoListUL = []\<rparr>,
          \<lparr>input_value = ''Buy milk'', parentElement_id = ''0''\<rparr>)
   \<and> map name (items (model
        (displayTodoItems \<lparr>model = initial_model, toggleAllButton = [], todoListUL = []\<rparr>)))
       = [''This item is done'', ''This item is not done'']
   \<and> updateItemNameOnKeyUp
     \<lparr>code = JSString ''Escape'',
      target = \<lparr>input_value = ''Buy milk'', parentElement_id = ''0''\<rparr>\<rparr>
     (displayTodoItems \<lparr>model = initial_model, toggleAllButton = [], todoListUL = []\<rparr>)
   = Inr (displayTodoItems \<lparr>model = initial_model, toggleAllButton = [], todoListUL = []\<rparr>,
          \<lparr>input_value = ''Buy milk'', parentElement_id = ''0''\<rparr>)"
  by (simp add: string_code_ignored displayTodoItems_model initial_model_def)

end
